theory Spec2Isabelle
  imports Main "HOL-Library.Sublist" "HOL-Library.AList"
begin

section \<open>The four request handlers of server.py\<close>

text \<open>
  \<^verbatim>\<open>server.py\<close> defines four FastAPI handlers: \<^verbatim>\<open>read_csv\<close>, \<^verbatim>\<open>describe\<close>,
  \<^verbatim>\<open>plot\<close> and \<^verbatim>\<open>analyze\<close>. Each one is a \<^verbatim>\<open>try\<close> block that calls pandas,
  matplotlib and seaborn and ends in \<^verbatim>\<open>JSONResponse(content=...)\<close>, followed by
  \<^verbatim>\<open>except Exception as e: raise HTTPException(status_code=400, detail=str(e))\<close>.

  The handlers are embedded as they are written. Every call into a third-party library
  is a field of a record of library operations, so that a theorem about a handler holds
  for whatever the libraries compute; every such call may raise, and returns
  \<open>exn + 'a\<close> (\<open>Inl\<close> the exception). The calls on matplotlib's global figure registry
  thread that registry through as an explicit state.
\<close>

subsection \<open>Exceptions\<close>

text \<open>
  An exception raised inside a \<^verbatim>\<open>try\<close> block is either the \<^verbatim>\<open>HTTPException\<close> the
  handler raises itself (status code and detail), or any other \<^verbatim>\<open>Exception\<close>, which the
  handler only ever reads through \<^verbatim>\<open>str(e)\<close>: it is represented by that text.
  (\<^verbatim>\<open>except Exception\<close> does not catch \<^verbatim>\<open>BaseException\<close>s such as a cancellation;
  those are outside the model.)
\<close>

datatype exn = HTTPException nat string | OtherException string

definition bind_exn :: "exn + 'a \<Rightarrow> ('a \<Rightarrow> exn + 'b) \<Rightarrow> exn + 'b" where
  "bind_exn m f = (case m of Inl e \<Rightarrow> Inl e | Inr v \<Rightarrow> f v)"

subsection \<open>Responses and the web framework\<close>

text \<open>
  The content passed to \<^verbatim>\<open>JSONResponse\<close> by each handler. \<open>'j\<close> is a parsed JSON value
  (what \<^verbatim>\<open>json.loads\<close> returns), \<open>'b\<close> a byte or text buffer. Dictionaries returned by
  \<^verbatim>\<open>to_dict()\<close> are association lists.
\<close>

datatype ('j, 'b) content =
    ReadCsvContent 'j "string list" "nat \<times> nat"
  | DescribeContent 'j "(string \<times> string) list"
  | PlotContent 'b
  | AnalyzeContent 'j 'j "(string \<times> string) list" "(string \<times> nat) list"

text \<open>
  \<open>exception_str status detail\<close> is \<^verbatim>\<open>str(HTTPException(status_code=status, detail=detail))\<close>,
  which Starlette defines; \<open>render_error c\<close> is the exception \<^verbatim>\<open>JSONResponse(content=c)\<close>
  raises while rendering \<open>c\<close>, if any.
\<close>

record ('j, 'b) web =
  exception_str :: "nat \<Rightarrow> string \<Rightarrow> string"
  render_error :: "('j, 'b) content \<Rightarrow> exn option"

definition JSONResponse :: "('j, 'b) web \<Rightarrow> ('j, 'b) content \<Rightarrow> exn + ('j, 'b) content" where
  "JSONResponse W c = (case render_error W c of Some e \<Rightarrow> Inl e | None \<Rightarrow> Inr c)"

definition str_exn :: "('j, 'b) web \<Rightarrow> exn \<Rightarrow> string" where
  "str_exn W e = (case e of HTTPException s d \<Rightarrow> exception_str W s d | OtherException m \<Rightarrow> m)"

text \<open>The \<^verbatim>\<open>except Exception as e\<close> clause every handler ends with.\<close>

definition except_400 :: "('j, 'b) web \<Rightarrow> exn + 'a \<Rightarrow> exn + 'a" where
  "except_400 W r = (case r of Inl e \<Rightarrow> Inl (HTTPException 400 (str_exn W e)) | Inr v \<Rightarrow> Inr v)"

subsection \<open>read_csv (lines 15-27)\<close>

text \<open>
  \<open>'u\<close> is the uploaded file, \<open>'f\<close> a DataFrame. \<open>to_json_records df\<close> is
  \<^verbatim>\<open>json.loads(df.to_json(orient='records'))\<close>.
\<close>

record ('u, 'f, 'j) csv_lib =
  upload_read :: "'u \<Rightarrow> exn + string"
  decode_utf8 :: "string \<Rightarrow> exn + string"
  pd_read_csv :: "string \<Rightarrow> exn + 'f"
  to_json_records :: "'f \<Rightarrow> exn + 'j"
  columns_tolist :: "'f \<Rightarrow> exn + string list"
  df_shape :: "'f \<Rightarrow> exn + nat \<times> nat"

definition read_csv_try ::
  "('j, 'b) web \<Rightarrow> ('u, 'f, 'j) csv_lib \<Rightarrow> 'u \<Rightarrow> exn + ('j, 'b) content" where
  "read_csv_try W C file =
     bind_exn (upload_read C file) (\<lambda>content.
     bind_exn (decode_utf8 C content) (\<lambda>txt.
     bind_exn (pd_read_csv C txt) (\<lambda>df.
     bind_exn (to_json_records C df) (\<lambda>rows.
     bind_exn (columns_tolist C df) (\<lambda>cols.
     bind_exn (df_shape C df) (\<lambda>shp.
     JSONResponse W (ReadCsvContent rows cols shp)))))))"

definition read_csv ::
  "('j, 'b) web \<Rightarrow> ('u, 'f, 'j) csv_lib \<Rightarrow> 'u \<Rightarrow> exn + ('j, 'b) content" where
  "read_csv W C file = except_400 W (read_csv_try W C file)"

subsection \<open>describe (lines 29-40) and analyze (lines 86-112)\<close>

text \<open>
  \<open>'d\<close> is the request body \<^verbatim>\<open>data: Dict[str, List[Any]]\<close>, \<open>'f\<close> a DataFrame,
  \<open>'sr\<close> a Series. \<open>df_to_json x\<close> is \<^verbatim>\<open>json.loads(x.to_json())\<close>,
  \<open>df_dtypes df\<close> is \<^verbatim>\<open>df.dtypes.astype(str).to_dict()\<close>, \<open>df_count df\<close> is
  \<^verbatim>\<open>df.count().to_dict()\<close>, \<open>df_select_number df\<close> is
  \<^verbatim>\<open>df.select_dtypes(include=[np.number])\<close>, \<open>df_getitem_list df cols\<close> is
  \<^verbatim>\<open>df[cols]\<close> for a list and \<open>df_getitem df c\<close> is \<^verbatim>\<open>df[c]\<close> for one label.
\<close>

record ('d, 'f, 'sr, 'j) pandas_lib =
  pd_DataFrame :: "'d \<Rightarrow> exn + 'f"
  df_describe :: "'f \<Rightarrow> exn + 'f"
  df_to_json :: "'f \<Rightarrow> exn + 'j"
  df_dtypes :: "'f \<Rightarrow> exn + (string \<times> string) list"
  df_getitem_list :: "'f \<Rightarrow> string list \<Rightarrow> exn + 'f"
  df_getitem :: "'f \<Rightarrow> string \<Rightarrow> exn + 'sr"
  df_select_number :: "'f \<Rightarrow> exn + 'f"
  df_corr :: "'f \<Rightarrow> exn + 'f"
  df_count :: "'f \<Rightarrow> exn + (string \<times> nat) list"

definition describe_try ::
  "('j, 'b) web \<Rightarrow> ('d, 'f, 'sr, 'j) pandas_lib \<Rightarrow> 'd \<Rightarrow> exn + ('j, 'b) content" where
  "describe_try W D data =
     bind_exn (pd_DataFrame D data) (\<lambda>df.
     bind_exn (df_describe D df) (\<lambda>description.
     bind_exn (df_to_json D description) (\<lambda>statistics.
     bind_exn (df_dtypes D df) (\<lambda>dtypes.
     JSONResponse W (DescribeContent statistics dtypes)))))"

definition describe ::
  "('j, 'b) web \<Rightarrow> ('d, 'f, 'sr, 'j) pandas_lib \<Rightarrow> 'd \<Rightarrow> exn + ('j, 'b) content" where
  "describe W D data = except_400 W (describe_try W D data)"

text \<open>
  \<^verbatim>\<open>if columns: df = df[columns]\<close> tests the truth value of \<^verbatim>\<open>columns\<close>: both
  \<^verbatim>\<open>None\<close> and the empty list skip the selection.
\<close>

definition restrict_columns ::
  "('d, 'f, 'sr, 'j) pandas_lib \<Rightarrow> 'f \<Rightarrow> string list option \<Rightarrow> exn + 'f" where
  "restrict_columns D df columns =
     (case columns of
        None \<Rightarrow> Inr df
      | Some cs \<Rightarrow> if cs = [] then Inr df else df_getitem_list D df cs)"

definition analyze_try ::
  "('j, 'b) web \<Rightarrow> ('d, 'f, 'sr, 'j) pandas_lib \<Rightarrow> 'd \<Rightarrow> string list option
     \<Rightarrow> exn + ('j, 'b) content" where
  "analyze_try W D data columns =
     bind_exn (pd_DataFrame D data) (\<lambda>df0.
     bind_exn (restrict_columns D df0 columns) (\<lambda>df.
     bind_exn (df_describe D df) (\<lambda>description.
     bind_exn (df_select_number D df) (\<lambda>numeric.
     bind_exn (df_corr D numeric) (\<lambda>correlation.
     bind_exn (df_dtypes D df) (\<lambda>dtypes.
     bind_exn (df_count D df) (\<lambda>non_null_counts.
     bind_exn (df_to_json D description) (\<lambda>dj.
     bind_exn (df_to_json D correlation) (\<lambda>cj.
     JSONResponse W (AnalyzeContent dj cj dtypes non_null_counts))))))))))"

definition analyze ::
  "('j, 'b) web \<Rightarrow> ('d, 'f, 'sr, 'j) pandas_lib \<Rightarrow> 'd \<Rightarrow> string list option
     \<Rightarrow> exn + ('j, 'b) content" where
  "analyze W D data columns = except_400 W (analyze_try W D data columns)"

subsection \<open>plot (lines 42-84)\<close>

text \<open>
  \<open>'p\<close> is the state of matplotlib's global figure registry. A call that touches it
  takes the state and returns the new one with its result; the state a call leaves
  behind when it raises is kept, since that is the state the handler returns in.
  \<open>plt_savefig\<close> is \<^verbatim>\<open>plt.savefig(buffer, format='png', bbox_inches='tight')\<close> followed
  by \<^verbatim>\<open>buffer.getvalue()\<close>; \<open>b64encode b\<close> is \<^verbatim>\<open>base64.b64encode(b).decode()\<close>.
  \<open>df_plot_line df None\<close> is \<^verbatim>\<open>df.plot(kind="line")\<close> and
  \<open>df_plot_line df (Some (x, y))\<close> is \<^verbatim>\<open>df.plot(kind="line", x=x, y=y)\<close>.
\<close>

record ('f, 'sr, 'p, 'b) pyplot_lib =
  plt_figure :: "'p \<Rightarrow> (exn + unit) \<times> 'p"
  df_plot_line :: "'f \<Rightarrow> (string \<times> string) option \<Rightarrow> 'p \<Rightarrow> (exn + unit) \<times> 'p"
  plt_scatter :: "'sr \<Rightarrow> 'sr \<Rightarrow> 'p \<Rightarrow> (exn + unit) \<times> 'p"
  series_hist :: "'sr \<Rightarrow> 'p \<Rightarrow> (exn + unit) \<times> 'p"
  sns_heatmap :: "'f \<Rightarrow> 'p \<Rightarrow> (exn + unit) \<times> 'p"
  plt_title :: "string \<Rightarrow> 'p \<Rightarrow> (exn + unit) \<times> 'p"
  plt_savefig :: "'p \<Rightarrow> (exn + 'b) \<times> 'p"
  plt_close :: "'p \<Rightarrow> (exn + unit) \<times> 'p"
  b64encode :: "'b \<Rightarrow> 'b"

definition bind_plt ::
  "('p \<Rightarrow> (exn + 'a) \<times> 'p) \<Rightarrow> ('a \<Rightarrow> 'p \<Rightarrow> (exn + 'c) \<times> 'p) \<Rightarrow> 'p \<Rightarrow> (exn + 'c) \<times> 'p" where
  "bind_plt m f s = (case m s of (Inl e, s') \<Rightarrow> (Inl e, s') | (Inr v, s') \<Rightarrow> f v s')"

definition pure_plt :: "exn + 'a \<Rightarrow> 'p \<Rightarrow> (exn + 'a) \<times> 'p" where
  "pure_plt r s = (r, s)"

text \<open>Lines 55-71: the drawing step chosen by \<^verbatim>\<open>kind\<close>.\<close>

definition draw_kind ::
  "('d, 'f, 'sr, 'j) pandas_lib \<Rightarrow> ('f, 'sr, 'p, 'b) pyplot_lib \<Rightarrow> 'f \<Rightarrow> string
     \<Rightarrow> string option \<Rightarrow> string option \<Rightarrow> 'p \<Rightarrow> (exn + unit) \<times> 'p" where
  "draw_kind D P df kind x y =
     (if kind = ''line'' then
        (case (x, y) of
           (Some xc, Some yc) \<Rightarrow> df_plot_line P df (Some (xc, yc))
         | _ \<Rightarrow> df_plot_line P df None)
      else if kind = ''scatter'' then
        (case (x, y) of
           (Some xc, Some yc) \<Rightarrow>
             bind_plt (pure_plt (df_getitem D df xc)) (\<lambda>sx.
             bind_plt (pure_plt (df_getitem D df yc)) (\<lambda>sy.
             plt_scatter P sx sy))
         | _ \<Rightarrow> pure_plt (Inl (HTTPException 400 ''x and y are required for scatter plots'')))
      else if kind = ''histogram'' then
        (case x of
           Some xc \<Rightarrow> bind_plt (pure_plt (df_getitem D df xc)) (\<lambda>sx. series_hist P sx)
         | None \<Rightarrow> pure_plt (Inl (HTTPException 400 ''x is required for histograms'')))
      else if kind = ''heatmap'' then
        bind_plt (pure_plt (df_corr D df)) (\<lambda>c. sns_heatmap P c)
      else pure_plt (Inl (HTTPException 400 (''Unsupported plot type: '' @ kind))))"

text \<open>Lines 73-74: \<^verbatim>\<open>if title: plt.title(title)\<close>; \<^verbatim>\<open>None\<close> and \<^verbatim>\<open>""\<close> are false.\<close>

definition set_title ::
  "('f, 'sr, 'p, 'b) pyplot_lib \<Rightarrow> string option \<Rightarrow> 'p \<Rightarrow> (exn + unit) \<times> 'p" where
  "set_title P title =
     (case title of
        None \<Rightarrow> pure_plt (Inr ())
      | Some t \<Rightarrow> if t = [] then pure_plt (Inr ()) else plt_title P t)"

text \<open>Lines 73-82: title, rendering into the buffer, \<^verbatim>\<open>plt.close()\<close>, the response.\<close>

definition render_response ::
  "('j, 'b) web \<Rightarrow> ('f, 'sr, 'p, 'b) pyplot_lib \<Rightarrow> string option
     \<Rightarrow> 'p \<Rightarrow> (exn + ('j, 'b) content) \<times> 'p" where
  "render_response W P title =
     bind_plt (set_title P title) (\<lambda>_.
     bind_plt (plt_savefig P) (\<lambda>png.
     bind_plt (plt_close P) (\<lambda>_.
     pure_plt (JSONResponse W (PlotContent (b64encode P png))))))"

definition plot_try ::
  "('j, 'b) web \<Rightarrow> ('d, 'f, 'sr, 'j) pandas_lib \<Rightarrow> ('f, 'sr, 'p, 'b) pyplot_lib \<Rightarrow> 'd
     \<Rightarrow> string \<Rightarrow> string option \<Rightarrow> string option \<Rightarrow> string option
     \<Rightarrow> 'p \<Rightarrow> (exn + ('j, 'b) content) \<times> 'p" where
  "plot_try W D P data kind x y title =
     bind_plt (pure_plt (pd_DataFrame D data)) (\<lambda>df.
     bind_plt (plt_figure P) (\<lambda>_.
     bind_plt (draw_kind D P df kind x y) (\<lambda>_.
     render_response W P title)))"

definition plot ::
  "('j, 'b) web \<Rightarrow> ('d, 'f, 'sr, 'j) pandas_lib \<Rightarrow> ('f, 'sr, 'p, 'b) pyplot_lib \<Rightarrow> 'd
     \<Rightarrow> string \<Rightarrow> string option \<Rightarrow> string option \<Rightarrow> string option
     \<Rightarrow> 'p \<Rightarrow> (exn + ('j, 'b) content) \<times> 'p" where
  "plot W D P data kind x y title s =
     (case plot_try W D P data kind x y title s of (r, s') \<Rightarrow> (except_400 W r, s'))"

section \<open>A reference interpretation of the library calls\<close>

text \<open>
  The theorems about the handlers hold for every interpretation of the library
  operations. To run the handlers on concrete requests the operations are interpreted
  here over small tables. The interpretation follows pandas 2.x, matplotlib and Starlette on the
  structure the handlers depend on: which columns a frame has, which of them are
  numeric, which call raises. Floating-point results are not computed: a statistic is
  kept as the symbolic cell \<open>Stat name values\<close> and a correlation coefficient as
  \<open>Pearson xs ys\<close>. Cells are JSON null, integers (taken within the int64 range) and
  text (taken not to parse as a number).
\<close>

datatype cell =
    Null
  | IntC int
  | StrC string
  | CountC nat
  | Stat string "cell list"
  | Pearson "cell list" "cell list"

datatype label = Row nat | Name string

type_synonym table = "(string \<times> cell list) list"

record frame =
  frame_index :: "label list"
  frame_columns :: table

type_synonym series = "string \<times> cell list"

type_synonym json = "(string \<times> (label \<times> cell) list) list"

definition dict_of :: "('k \<times> 'v) list \<Rightarrow> ('k \<times> 'v) list" where
  \<comment> \<open>A Python dict built from pairs in order: a repeated key keeps its first position
     and takes the last value.\<close>
  "dict_of kvs = foldl (\<lambda>d (k, v). AList.update k v d) [] kvs"

definition py_repr :: "string \<Rightarrow> string" where
  \<comment> \<open>\<^verbatim>\<open>repr\<close> of a Python string without quotes or escapes in it.\<close>
  "py_repr t = [CHR 0x27] @ t @ [CHR 0x27]"

definition ref_DataFrame :: "table \<Rightarrow> exn + frame" where
  \<comment> \<open>\<^verbatim>\<open>pd.DataFrame(data)\<close> for a dict of lists: a \<^verbatim>\<open>ValueError\<close> unless all lists have
     one length; the index is \<^verbatim>\<open>RangeIndex\<close>.\<close>
  "ref_DataFrame d =
     (case d of
        [] \<Rightarrow> Inr \<lparr>frame_index = [], frame_columns = []\<rparr>
      | (c, vs) # rest \<Rightarrow>
          if list_all (\<lambda>(c', vs'). length vs' = length vs) rest
          then Inr \<lparr>frame_index = map Row [0..<length vs], frame_columns = d\<rparr>
          else Inl (OtherException ''All arrays must be of the same length''))"

definition is_number_cell :: "cell \<Rightarrow> bool" where
  "is_number_cell c = (case c of Null \<Rightarrow> False | StrC t \<Rightarrow> False | _ \<Rightarrow> True)"

definition is_int_cell :: "cell \<Rightarrow> bool" where
  "is_int_cell c = (case c of IntC i \<Rightarrow> True | _ \<Rightarrow> False)"

definition is_text_cell :: "cell \<Rightarrow> bool" where
  "is_text_cell c = (case c of StrC t \<Rightarrow> True | _ \<Rightarrow> False)"

definition col_dtype :: "cell list \<Rightarrow> string" where
  \<comment> \<open>The dtype pandas infers for a column built from a list: an empty list gives
     \<^verbatim>\<open>float64\<close>; integers only give \<^verbatim>\<open>int64\<close>; numbers with nulls give \<^verbatim>\<open>float64\<close>;
     text and an all-null column give \<^verbatim>\<open>object\<close>.\<close>
  "col_dtype vs =
     (if vs = [] then ''float64''
      else if list_all is_int_cell vs then ''int64''
      else if list_ex is_number_cell vs \<and> list_all (\<lambda>c. is_number_cell c \<or> c = Null) vs
      then ''float64''
      else ''object'')"

definition is_number_col :: "series \<Rightarrow> bool" where
  "is_number_col sc = (col_dtype (snd sc) = ''int64'' \<or> col_dtype (snd sc) = ''float64'')"

definition count_non_null :: "cell list \<Rightarrow> nat" where
  "count_non_null vs = length (filter (\<lambda>c. c \<noteq> Null) vs)"

definition describe_number :: "series \<Rightarrow> series" where
  "describe_number sc =
     (fst sc, CountC (count_non_null (snd sc)) #
        map (\<lambda>n. Stat n (snd sc)) [''mean'', ''std'', ''min'', ''25%'', ''50%'', ''75%'', ''max''])"

definition describe_object :: "series \<Rightarrow> series" where
  "describe_object sc =
     (fst sc, [IntC (int (count_non_null (snd sc))),
               IntC (int (length (remdups (filter (\<lambda>c. c \<noteq> Null) (snd sc))))),
               Stat ''top'' (snd sc), Stat ''freq'' (snd sc)])"

definition ref_describe :: "frame \<Rightarrow> exn + frame" where
  \<comment> \<open>\<^verbatim>\<open>df.describe()\<close> with its defaults: the numeric columns when there are any,
     else all (object) columns; a \<^verbatim>\<open>ValueError\<close> for a frame without columns.\<close>
  "ref_describe f =
     (if frame_columns f = [] then
        Inl (OtherException ''Cannot describe a DataFrame without columns'')
      else if filter is_number_col (frame_columns f) \<noteq> [] then
        Inr \<lparr>frame_index =
               map Name [''count'', ''mean'', ''std'', ''min'', ''25%'', ''50%'', ''75%'', ''max''],
             frame_columns = map describe_number (filter is_number_col (frame_columns f))\<rparr>
      else
        Inr \<lparr>frame_index = map Name [''count'', ''unique'', ''top'', ''freq''],
             frame_columns = map describe_object (frame_columns f)\<rparr>)"

definition ref_to_json :: "frame \<Rightarrow> exn + json" where
  \<comment> \<open>\<^verbatim>\<open>json.loads(x.to_json())\<close>, orient \<^verbatim>\<open>columns\<close>: a dict per column keyed by the
     index; \<^verbatim>\<open>to_json\<close> raises \<^verbatim>\<open>ValueError\<close> on a repeated index or column label. A
     symbolic cell stands for the parsed form of that float (\<^verbatim>\<open>None\<close> when it is NaN).\<close>
  "ref_to_json f =
     (if \<not> distinct (frame_index f) then
        Inl (OtherException (''DataFrame index must be unique for orient='' @ py_repr ''columns'' @ ''.''))
      else if \<not> distinct (map fst (frame_columns f)) then
        Inl (OtherException (''DataFrame columns must be unique for orient='' @ py_repr ''columns'' @ ''.''))
      else Inr (map (\<lambda>(c, vs). (c, zip (frame_index f) vs)) (frame_columns f)))"

definition ref_dtypes :: "frame \<Rightarrow> exn + (string \<times> string) list" where
  "ref_dtypes f = Inr (dict_of (map (\<lambda>(c, vs). (c, col_dtype vs)) (frame_columns f)))"

definition ref_count :: "frame \<Rightarrow> exn + (string \<times> nat) list" where
  "ref_count f = Inr (dict_of (map (\<lambda>(c, vs). (c, count_non_null vs)) (frame_columns f)))"

definition py_list_repr :: "string list \<Rightarrow> string" where
  "py_list_repr cs =
     ''['' @ (case cs of [] \<Rightarrow> [] | c # r \<Rightarrow> py_repr c @ concat (map (\<lambda>t. '', '' @ py_repr t) r)) @ '']''"

definition ref_getitem_list :: "frame \<Rightarrow> string list \<Rightarrow> exn + frame" where
  \<comment> \<open>\<^verbatim>\<open>df[cols]\<close> on a frame with distinct column labels: the listed columns in the
     listed order; a \<^verbatim>\<open>KeyError\<close> (whose \<^verbatim>\<open>str\<close> is the \<^verbatim>\<open>repr\<close> of its message) when a label
     is not a column.\<close>
  "ref_getitem_list f cs =
     (if list_all (\<lambda>c. c \<in> set (map fst (frame_columns f))) cs then
        Inr \<lparr>frame_index = frame_index f,
             frame_columns =
               map (\<lambda>c. (c, case map_of (frame_columns f) c of Some vs \<Rightarrow> vs | None \<Rightarrow> [])) cs\<rparr>
      else if list_ex (\<lambda>c. c \<in> set (map fst (frame_columns f))) cs then
        Inl (OtherException
              ([CHR 0x22] @ py_list_repr (filter (\<lambda>c. c \<notin> set (map fst (frame_columns f))) cs)
                 @ '' not in index'' @ [CHR 0x22]))
      else
        Inl (OtherException
              ([CHR 0x22] @ ''None of [Index('' @ py_list_repr cs @ '', dtype='' @ py_repr ''object''
                 @ '')] are in the [columns]'' @ [CHR 0x22])))"

definition ref_getitem :: "frame \<Rightarrow> string \<Rightarrow> exn + series" where
  "ref_getitem f c =
     (case map_of (frame_columns f) c of
        Some vs \<Rightarrow> Inr (c, vs)
      | None \<Rightarrow> Inl (OtherException (py_repr c)))"

definition ref_select_number :: "frame \<Rightarrow> exn + frame" where
  "ref_select_number f =
     Inr \<lparr>frame_index = frame_index f, frame_columns = filter is_number_col (frame_columns f)\<rparr>"

definition ref_corr :: "frame \<Rightarrow> exn + frame" where
  \<comment> \<open>\<^verbatim>\<open>df.corr()\<close> in pandas 2.x (\<^verbatim>\<open>numeric_only=False\<close>): the frame is converted to
     floats, which raises \<^verbatim>\<open>ValueError\<close> at the first text cell; otherwise the square
     matrix of pairwise coefficients.\<close>
  "ref_corr f =
     (case filter is_text_cell (concat (map snd (frame_columns f))) of
        StrC t # _ \<Rightarrow> Inl (OtherException (''could not convert string to float: '' @ py_repr t))
      | _ \<Rightarrow>
        Inr \<lparr>frame_index = map (\<lambda>sc. Name (fst sc)) (frame_columns f),
             frame_columns =
               map (\<lambda>(c, vs). (c, map (\<lambda>(c', vs'). Pearson vs' vs) (frame_columns f)))
                 (frame_columns f)\<rparr>)"

definition pandas2 :: "(table, frame, series, json) pandas_lib" where
  "pandas2 =
     \<lparr>pd_DataFrame = ref_DataFrame, df_describe = ref_describe, df_to_json = ref_to_json,
      df_dtypes = ref_dtypes, df_getitem_list = ref_getitem_list, df_getitem = ref_getitem,
      df_select_number = ref_select_number, df_corr = ref_corr, df_count = ref_count\<rparr>"

text \<open>
  matplotlib's figure registry is the list of open figures, the current one last. A
  figure is the list of the drawing calls made on it: \<open>PlotLine f xy\<close> is the call
  \<^verbatim>\<open>f.plot(kind="line")\<close>, or \<^verbatim>\<open>f.plot(kind="line", x=x, y=y)\<close>, and not the set of
  lines it draws (pandas draws the numeric columns of what it is given). \<^verbatim>\<open>plt.figure()\<close>
  opens a figure and makes it current, \<^verbatim>\<open>plt.close()\<close> closes the current one, a pyplot
  call with no open figure opens one first, and \<^verbatim>\<open>DataFrame.plot\<close> without an \<^verbatim>\<open>ax\<close>
  argument opens a figure of its own. \<^verbatim>\<open>plt.scatter\<close>, \<^verbatim>\<open>Series.hist\<close> and \<^verbatim>\<open>plt.title\<close>
  are recorded as calls on the current figure; which values matplotlib refuses to draw
  is not part of the interpretation.
\<close>

datatype draw =
    PlotLine frame "(string \<times> string) option"
  | Scatter series series
  | Hist series
  | Heatmap frame
  | Title string

type_synonym figure = "draw list"

datatype blob = Png figure | Base64 blob

definition draw_on :: "draw \<Rightarrow> figure list \<Rightarrow> figure list" where
  "draw_on c s = (if s = [] then [[c]] else butlast s @ [last s @ [c]])"

definition ref_plot_line ::
  "frame \<Rightarrow> (string \<times> string) option \<Rightarrow> figure list \<Rightarrow> (exn + unit) \<times> figure list" where
  \<comment> \<open>\<^verbatim>\<open>DataFrame.plot(kind="line")\<close>: a \<^verbatim>\<open>TypeError\<close> when there is no numeric column to
     draw. With \<^verbatim>\<open>x\<close> and \<^verbatim>\<open>y\<close>, column \<^verbatim>\<open>x\<close> becomes the index and column \<^verbatim>\<open>y\<close> is
     drawn: a \<^verbatim>\<open>KeyError\<close> when \<^verbatim>\<open>x\<close> is not a column or \<^verbatim>\<open>y\<close> is not one of the others,
     a \<^verbatim>\<open>TypeError\<close> when column \<^verbatim>\<open>y\<close> is not numeric. Nothing is opened when it raises.\<close>
  "ref_plot_line f xy s =
     (case xy of
        None \<Rightarrow>
          if filter is_number_col (frame_columns f) = []
          then (Inl (OtherException ''no numeric data to plot''), s)
          else (Inr (), s @ [[PlotLine f None]])
      | Some (x, y) \<Rightarrow>
          (case map_of (frame_columns f) x of
             None \<Rightarrow> (Inl (OtherException (py_repr x)), s)
           | Some xs \<Rightarrow>
               (case (if y = x then None else map_of (frame_columns f) y) of
                  None \<Rightarrow> (Inl (OtherException (py_repr y)), s)
                | Some ys \<Rightarrow>
                    if is_number_col (y, ys)
                    then (Inr (), s @ [[PlotLine f (Some (x, y))]])
                    else (Inl (OtherException ''no numeric data to plot''), s))))"

definition ref_heatmap :: "frame \<Rightarrow> figure list \<Rightarrow> (exn + unit) \<times> figure list" where
  \<comment> \<open>\<^verbatim>\<open>sns.heatmap(m, annot=True, cmap='coolwarm')\<close> draws on the current axes; on a
     matrix without cells the colour range cannot be computed and numpy raises
     \<^verbatim>\<open>ValueError\<close>.\<close>
  "ref_heatmap m s =
     (if frame_columns m = [] \<or> frame_index m = []
      then (Inl (OtherException
                  ''zero-size array to reduction operation fmin which has no identity''), s)
      else (Inr (), draw_on (Heatmap m) s))"

definition pyplot :: "(frame, series, figure list, blob) pyplot_lib" where
  "pyplot =
     \<lparr>plt_figure = (\<lambda>s. (Inr (), s @ [[]])),
      df_plot_line = ref_plot_line,
      plt_scatter = (\<lambda>sx sy s. (Inr (), draw_on (Scatter sx sy) s)),
      series_hist = (\<lambda>sx s. (Inr (), draw_on (Hist sx) s)),
      sns_heatmap = ref_heatmap,
      plt_title = (\<lambda>t s. (Inr (), draw_on (Title t) s)),
      plt_savefig = (\<lambda>s. if s = [] then (Inr (Png []), [[]]) else (Inr (Png (last s)), s)),
      plt_close = (\<lambda>s. (Inr (), butlast s)),
      b64encode = Base64\<rparr>"

text \<open>
  Current Starlette releases print an \<^verbatim>\<open>HTTPException\<close> as \<^verbatim>\<open>"{status_code}: {detail}"\<close>.
  The contents built from the tables above are JSON-serialisable.
\<close>

fun decimal :: "nat \<Rightarrow> string" where
  "decimal n = (if n < 10 then [''0123456789'' ! n] else decimal (n div 10) @ [''0123456789'' ! (n mod 10)])"

declare decimal.simps [simp del]

definition starlette :: "(json, blob) web" where
  "starlette = \<lparr>exception_str = (\<lambda>s d. decimal s @ '': '' @ d), render_error = (\<lambda>c. None)\<rparr>"

text \<open>
  Two request bodies (JSON objects, so their keys are distinct): a table with two integer
  columns and a text column, and one whose lists differ in length.
\<close>

definition table_abc :: table where
  "table_abc =
     [(''a'', [IntC 1, IntC 2]), (''b'', [StrC ''u'', StrC ''v'']), (''c'', [IntC 4, IntC 3])]"

definition frame_abc :: frame where
  "frame_abc = \<lparr>frame_index = [Row 0, Row 1], frame_columns = table_abc\<rparr>"

definition table_ragged :: table where
  "table_ragged = [(''a'', [IntC 1, IntC 2]), (''b'', [IntC 3])]"

section \<open>Notions used in the statements\<close>

text \<open>Lines 52-53 of \<^verbatim>\<open>plot\<close> succeed: the table is built and the figure is opened.\<close>

definition table_built ::
  "('d, 'f, 'sr, 'j) pandas_lib \<Rightarrow> ('f, 'sr, 'p, 'b) pyplot_lib \<Rightarrow> 'd \<Rightarrow> 'p \<Rightarrow> 'f \<Rightarrow> 'p \<Rightarrow> bool" where
  "table_built D P data s df s1 =
     (pd_DataFrame D data = Inr df \<and> plt_figure P s = (Inr (), s1))"

text \<open>\<^verbatim>\<open>str\<close> of an \<^verbatim>\<open>HTTPException\<close> contains its detail.\<close>

definition str_shows_detail :: "('j, 'b) web \<Rightarrow> bool" where
  "str_shows_detail W = (\<forall>st d. sublist d (exception_str W st d))"

definition known_kind :: "string \<Rightarrow> bool" where
  "known_kind kind =
     (kind = ''line'' \<or> kind = ''scatter'' \<or> kind = ''histogram'' \<or> kind = ''heatmap'')"

text \<open>The keys of the dtype mapping of a selection \<^verbatim>\<open>df[cols]\<close> are the selected labels.\<close>

definition selection_keeps_labels :: "('d, 'f, 'sr, 'j) pandas_lib \<Rightarrow> bool" where
  "selection_keeps_labels D =
     (\<forall>f cs f' dt. df_getitem_list D f cs = Inr f' \<and> df_dtypes D f' = Inr dt
        \<longrightarrow> set (map fst dt) = set cs)"

text \<open>
  The columns of the description of a selection \<^verbatim>\<open>df[cols]\<close> are among the selected
  labels; \<open>keys\<close> reads the column labels off the parsed JSON.
\<close>

definition description_within_selection ::
  "('d, 'f, 'sr, 'j) pandas_lib \<Rightarrow> ('j \<Rightarrow> string list) \<Rightarrow> bool" where
  "description_within_selection D keys =
     (\<forall>f cs f' g j. df_getitem_list D f cs = Inr f' \<and> df_describe D f' = Inr g \<and>
        df_to_json D g = Inr j \<longrightarrow> set (keys j) \<subseteq> set cs)"

text \<open>The parts of an \<^verbatim>\<open>analyze\<close> response, and the status of a failed request.\<close>

definition error_status :: "exn + 'a \<Rightarrow> nat option" where
  "error_status r = (case r of Inl (HTTPException st d) \<Rightarrow> Some st | _ \<Rightarrow> None)"


definition analyze_description :: "('j, 'b) content \<Rightarrow> 'j option" where
  "analyze_description c = (case c of AnalyzeContent dj cj dt n \<Rightarrow> Some dj | _ \<Rightarrow> None)"

definition analyze_dtypes :: "('j, 'b) content \<Rightarrow> (string \<times> string) list" where
  "analyze_dtypes c = (case c of AnalyzeContent dj cj dt n \<Rightarrow> dt | _ \<Rightarrow> [])"

definition description_keys :: "exn + (('k \<times> 'v) list, 'b) content \<Rightarrow> 'k list option" where
  "description_keys r =
     (case r of Inr (AnalyzeContent dj cj dt n) \<Rightarrow> Some (map fst dj) | _ \<Rightarrow> None)"

definition dtype_keys :: "exn + ('j, 'b) content \<Rightarrow> string list option" where
  "dtype_keys r =
     (case r of Inr (AnalyzeContent dj cj dt n) \<Rightarrow> Some (map fst dt) | _ \<Rightarrow> None)"

text \<open>
  What \<^verbatim>\<open>plot\<close> does once the drawing step of lines 55-71 has returned or raised: an
  exception goes to the \<^verbatim>\<open>except\<close> clause at once; otherwise lines 73-82 run, inside the
  same \<^verbatim>\<open>try\<close>.
\<close>

definition after_draw ::
  "('j, 'b) web \<Rightarrow> ('f, 'sr, 'p, 'b) pyplot_lib \<Rightarrow> string option \<Rightarrow> (exn + unit) \<times> 'p
     \<Rightarrow> (exn + ('j, 'b) content) \<times> 'p" where
  "after_draw W P title drawn =
     (case drawn of
        (Inl e, s2) \<Rightarrow> (Inl (HTTPException 400 (str_exn W e)), s2)
      | (Inr u, s2) \<Rightarrow> (case render_response W P title s2 of (r, s3) \<Rightarrow> (except_400 W r, s3)))"

text \<open>The analysis of the selection \<^verbatim>\<open>df[["a", "b"]]\<close> of the first table.\<close>

definition response_ab :: "(json, blob) content" where
  "response_ab =
     AnalyzeContent
       [(''a'',
         [(Name ''count'', CountC 2),
          (Name ''mean'', Stat ''mean'' [IntC 1, IntC 2]),
          (Name ''std'', Stat ''std'' [IntC 1, IntC 2]),
          (Name ''min'', Stat ''min'' [IntC 1, IntC 2]),
          (Name ''25%'', Stat ''25%'' [IntC 1, IntC 2]),
          (Name ''50%'', Stat ''50%'' [IntC 1, IntC 2]),
          (Name ''75%'', Stat ''75%'' [IntC 1, IntC 2]),
          (Name ''max'', Stat ''max'' [IntC 1, IntC 2])])]
       [(''a'', [(Name ''a'', Pearson [IntC 1, IntC 2] [IntC 1, IntC 2])])]
       [(''a'', ''int64''), (''b'', ''object'')]
       [(''a'', 2), (''b'', 2)]"

section \<open>Lemmas\<close>

subsection \<open>The handlers' control flow\<close>

lemma except_400_cases:
  "(\<exists>v. r = Inr v \<and> except_400 W r = Inr v) \<or>
   (\<exists>e. r = Inl e \<and> except_400 W r = Inl (HTTPException 400 (str_exn W e)))"
  by (cases r) (simp_all add: except_400_def)

lemma plot_after_table:
  assumes "table_built D P data s df s1"
  shows "plot_try W D P data kind x y title s =
           bind_plt (draw_kind D P df kind x y) (\<lambda>_. render_response W P title) s1"
  using assms by (simp add: table_built_def plot_try_def bind_plt_def pure_plt_def)

lemma plot_after_draw:
  assumes "table_built D P data s df s1"
  shows "plot W D P data kind x y title s = after_draw W P title (draw_kind D P df kind x y s1)"
  using assms
  by (simp add: plot_def plot_after_table bind_plt_def after_draw_def except_400_def
      split: prod.splits sum.splits)

lemma plot_draw_raises:
  assumes "table_built D P data s df s1" "draw_kind D P df kind x y s1 = (Inl e, s2)"
  shows "plot W D P data kind x y title s = (Inl (HTTPException 400 (str_exn W e)), s2)"
  using assms
  by (simp add: plot_def plot_after_table bind_plt_def except_400_def)

text \<open>
  When the drawing step raises whatever table and figure it is given, the handler fails
  with status 400 on every request: either line 52 or 53 raised already, or the drawing
  step does.
\<close>

lemma plot_fails_with_400:
  assumes "\<And>df s1. \<exists>e. draw_kind D P df kind x y s1 = (Inl e, s1)"
  shows "\<exists>d. fst (plot W D P data kind x y title s) = Inl (HTTPException 400 d)"
proof (cases "pd_DataFrame D data")
  case (Inl e)
  then show ?thesis
    by (simp add: plot_def plot_try_def bind_plt_def pure_plt_def except_400_def)
next
  case (Inr df)
  obtain r s1 where fig: "plt_figure P s = (r, s1)" by (cases "plt_figure P s")
  show ?thesis
  proof (cases r)
    case (Inl e)
    with Inr fig show ?thesis
      by (simp add: plot_def plot_try_def bind_plt_def pure_plt_def except_400_def)
  next
    case (Inr u)
    from assms obtain e where "draw_kind D P df kind x y s1 = (Inl e, s1)" by blast
    with \<open>pd_DataFrame D data = Inr df\<close> fig Inr show ?thesis
      by (simp add: plot_def plot_try_def bind_plt_def pure_plt_def except_400_def)
  qed
qed

lemma draw_scatter_missing:
  "x = None \<or> y = None \<Longrightarrow>
   draw_kind D P df ''scatter'' x y s1 =
     (Inl (HTTPException 400 ''x and y are required for scatter plots''), s1)"
  by (auto simp: draw_kind_def pure_plt_def split: option.splits)

lemma draw_unknown_kind:
  "\<not> known_kind kind \<Longrightarrow>
   draw_kind D P df kind x y s1 =
     (Inl (HTTPException 400 (''Unsupported plot type: '' @ kind)), s1)"
  by (simp add: draw_kind_def known_kind_def pure_plt_def)

subsection \<open>Which step of a block raises\<close>

text \<open>
  A block raises \<open>e\<close> exactly when one of its library calls raises \<open>e\<close> after the calls
  before it have returned (or, in \<^verbatim>\<open>plot\<close>, when the handler itself raises \<open>e\<close>).
\<close>

lemma bind_exn_Inl_iff:
  "(bind_exn m f = Inl e) = (m = Inl e \<or> (\<exists>v. m = Inr v \<and> f v = Inl e))"
  by (cases m) (simp_all add: bind_exn_def)

lemma bind_exn_Inr_iff:
  "(bind_exn m f = Inr r) = (\<exists>v. m = Inr v \<and> f v = Inr r)"
  by (cases m) (simp_all add: bind_exn_def)

lemma JSONResponse_Inl_iff: "(JSONResponse W c = Inl e) = (render_error W c = Some e)"
  by (simp add: JSONResponse_def split: option.splits)

lemma JSONResponse_Inr_iff: "(JSONResponse W c = Inr r) = (render_error W c = None \<and> r = c)"
  by (auto simp: JSONResponse_def split: option.splits)

lemma bind_plt_Inl_iff:
  "(fst (bind_plt m f s) = Inl e) =
     (fst (m s) = Inl e \<or> (\<exists>v s'. m s = (Inr v, s') \<and> fst (f v s') = Inl e))"
  by (cases "m s") (auto simp: bind_plt_def split: sum.splits)

lemma read_csv_try_raises:
  "(read_csv_try W C file = Inl e) =
     (upload_read C file = Inl e \<or>
      (\<exists>content. upload_read C file = Inr content \<and>
        (decode_utf8 C content = Inl e \<or>
         (\<exists>txt. decode_utf8 C content = Inr txt \<and>
           (pd_read_csv C txt = Inl e \<or>
            (\<exists>df. pd_read_csv C txt = Inr df \<and>
              (to_json_records C df = Inl e \<or>
               (\<exists>rows. to_json_records C df = Inr rows \<and>
                 (columns_tolist C df = Inl e \<or>
                  (\<exists>cols. columns_tolist C df = Inr cols \<and>
                    (df_shape C df = Inl e \<or>
                     (\<exists>shp. df_shape C df = Inr shp \<and>
                        render_error W (ReadCsvContent rows cols shp) = Some e))))))))))))"
  by (simp add: read_csv_try_def bind_exn_Inl_iff JSONResponse_Inl_iff)

lemma describe_try_raises:
  "(describe_try W D data = Inl e) =
     (pd_DataFrame D data = Inl e \<or>
      (\<exists>df. pd_DataFrame D data = Inr df \<and>
        (df_describe D df = Inl e \<or>
         (\<exists>description. df_describe D df = Inr description \<and>
           (df_to_json D description = Inl e \<or>
            (\<exists>statistics. df_to_json D description = Inr statistics \<and>
              (df_dtypes D df = Inl e \<or>
               (\<exists>dtypes. df_dtypes D df = Inr dtypes \<and>
                  render_error W (DescribeContent statistics dtypes) = Some e))))))))"
  by (simp add: describe_try_def bind_exn_Inl_iff JSONResponse_Inl_iff)

lemma restrict_columns_raises:
  "(restrict_columns D df0 columns = Inl e) =
     (\<exists>cs. columns = Some cs \<and> cs \<noteq> [] \<and> df_getitem_list D df0 cs = Inl e)"
  by (auto simp: restrict_columns_def split: option.splits)

lemma analyze_try_raises:
  "(analyze_try W D data columns = Inl e) =
     (pd_DataFrame D data = Inl e \<or>
      (\<exists>df0. pd_DataFrame D data = Inr df0 \<and>
        (restrict_columns D df0 columns = Inl e \<or>
         (\<exists>df. restrict_columns D df0 columns = Inr df \<and>
           (df_describe D df = Inl e \<or>
            (\<exists>description. df_describe D df = Inr description \<and>
              (df_select_number D df = Inl e \<or>
               (\<exists>numeric. df_select_number D df = Inr numeric \<and>
                 (df_corr D numeric = Inl e \<or>
                  (\<exists>correlation. df_corr D numeric = Inr correlation \<and>
                    (df_dtypes D df = Inl e \<or>
                     (\<exists>dtypes. df_dtypes D df = Inr dtypes \<and>
                       (df_count D df = Inl e \<or>
                        (\<exists>counts. df_count D df = Inr counts \<and>
                          (df_to_json D description = Inl e \<or>
                           (\<exists>dj. df_to_json D description = Inr dj \<and>
                             (df_to_json D correlation = Inl e \<or>
                              (\<exists>cj. df_to_json D correlation = Inr cj \<and>
                                 render_error W (AnalyzeContent dj cj dtypes counts) = Some e
                              ))))))))))))))))))"
  by (simp add: analyze_try_def bind_exn_Inl_iff JSONResponse_Inl_iff)

lemma set_title_raises:
  "(fst (set_title P title s) = Inl e) =
     (\<exists>t. title = Some t \<and> t \<noteq> [] \<and> fst (plt_title P t s) = Inl e)"
  by (auto simp: set_title_def pure_plt_def split: option.splits)

lemma render_response_raises:
  "(fst (render_response W P title s2) = Inl e) =
     (fst (set_title P title s2) = Inl e \<or>
      (\<exists>s3. set_title P title s2 = (Inr (), s3) \<and>
        (fst (plt_savefig P s3) = Inl e \<or>
         (\<exists>png s4. plt_savefig P s3 = (Inr png, s4) \<and>
           (fst (plt_close P s4) = Inl e \<or>
            (\<exists>s5. plt_close P s4 = (Inr (), s5) \<and>
               render_error W (PlotContent (b64encode P png)) = Some e))))))"
  by (simp add: render_response_def bind_plt_Inl_iff pure_plt_def JSONResponse_Inl_iff)

lemma plot_try_raises:
  "(fst (plot_try W D P data kind x y title s) = Inl e) =
     (pd_DataFrame D data = Inl e \<or>
      (\<exists>df. pd_DataFrame D data = Inr df \<and>
        (fst (plt_figure P s) = Inl e \<or>
         (\<exists>s1. plt_figure P s = (Inr (), s1) \<and>
           (fst (draw_kind D P df kind x y s1) = Inl e \<or>
            (\<exists>s2. draw_kind D P df kind x y s1 = (Inr (), s2) \<and>
               fst (render_response W P title s2) = Inl e))))))"
  by (simp add: plot_try_def bind_plt_Inl_iff pure_plt_def)

lemma draw_kind_raises:
  "(fst (draw_kind D P df kind x y s1) = Inl e) =
     (kind = ''line'' \<and>
        ((x = None \<or> y = None) \<and> fst (df_plot_line P df None s1) = Inl e \<or>
         (\<exists>xc yc. x = Some xc \<and> y = Some yc \<and>
            fst (df_plot_line P df (Some (xc, yc)) s1) = Inl e)) \<or>
      kind = ''scatter'' \<and>
        ((x = None \<or> y = None) \<and>
           e = HTTPException 400 ''x and y are required for scatter plots'' \<or>
         (\<exists>xc yc. x = Some xc \<and> y = Some yc \<and>
            (df_getitem D df xc = Inl e \<or>
             (\<exists>sx. df_getitem D df xc = Inr sx \<and>
               (df_getitem D df yc = Inl e \<or>
                (\<exists>sy. df_getitem D df yc = Inr sy \<and>
                   fst (plt_scatter P sx sy s1) = Inl e)))))) \<or>
      kind = ''histogram'' \<and>
        (x = None \<and> e = HTTPException 400 ''x is required for histograms'' \<or>
         (\<exists>xc. x = Some xc \<and>
            (df_getitem D df xc = Inl e \<or>
             (\<exists>sx. df_getitem D df xc = Inr sx \<and> fst (series_hist P sx s1) = Inl e)))) \<or>
      kind = ''heatmap'' \<and>
        (df_corr D df = Inl e \<or>
         (\<exists>c. df_corr D df = Inr c \<and> fst (sns_heatmap P c s1) = Inl e)) \<or>
      \<not> known_kind kind \<and> e = HTTPException 400 (''Unsupported plot type: '' @ kind))"
  by (auto simp: draw_kind_def known_kind_def bind_plt_Inl_iff pure_plt_def
      split: option.splits)

lemma analyze_try_returns:
  "(analyze_try W D data columns = Inr r) =
     (\<exists>df0 df description numeric correlation dtypes counts dj cj.
        pd_DataFrame D data = Inr df0 \<and> restrict_columns D df0 columns = Inr df \<and>
        df_describe D df = Inr description \<and> df_select_number D df = Inr numeric \<and>
        df_corr D numeric = Inr correlation \<and> df_dtypes D df = Inr dtypes \<and>
        df_count D df = Inr counts \<and> df_to_json D description = Inr dj \<and>
        df_to_json D correlation = Inr cj \<and>
        render_error W (AnalyzeContent dj cj dtypes counts) = None \<and>
        r = AnalyzeContent dj cj dtypes counts)"
  by (simp add: analyze_try_def bind_exn_Inr_iff JSONResponse_Inr_iff)

lemma analyze_returns: "(analyze W D data columns = Inr r) = (analyze_try W D data columns = Inr r)"
  by (cases "analyze_try W D data columns") (simp_all add: analyze_def except_400_def)


subsection \<open>The reference interpretation\<close>

lemma dict_of_keys_aux:
  "fst ` set (foldl (\<lambda>d (k, v). AList.update k v d) acc kvs) = fst ` set acc \<union> fst ` set kvs"
  by (induction kvs arbitrary: acc) (simp_all add: dom_update case_prod_unfold Un_ac)

lemma dict_of_keys: "fst ` set (dict_of kvs) = fst ` set kvs"
  by (simp add: dict_of_def dict_of_keys_aux)

lemma pandas2_selection_keeps_labels: "selection_keeps_labels pandas2"
  unfolding selection_keeps_labels_def
proof (intro allI impI)
  fix f cs f' dt
  assume h: "df_getitem_list pandas2 f cs = Inr f' \<and> df_dtypes pandas2 f' = Inr dt"
  then have cols: "map fst (frame_columns f') = cs"
    by (auto simp: pandas2_def ref_getitem_list_def comp_def split: if_splits)
  from h have "dt = dict_of (map (\<lambda>(c, vs). (c, col_dtype vs)) (frame_columns f'))"
    by (simp add: pandas2_def ref_dtypes_def)
  then have "fst ` set dt = fst ` set (frame_columns f')"
    by (simp add: dict_of_keys image_image case_prod_unfold)
  with cols show "set (map fst dt) = set cs"
    by (simp del: set_map add: set_map [symmetric])
qed

lemma pandas2_description_within_selection: "description_within_selection pandas2 (map fst)"
  unfolding description_within_selection_def
proof (intro allI impI)
  fix f cs f' g j
  assume h: "df_getitem_list pandas2 f cs = Inr f' \<and> df_describe pandas2 f' = Inr g \<and>
    df_to_json pandas2 g = Inr j"
  then have cols: "map fst (frame_columns f') = cs"
    by (auto simp: pandas2_def ref_getitem_list_def comp_def split: if_splits)
  from h have "fst ` set (frame_columns g) \<subseteq> fst ` set (frame_columns f')"
    by (auto simp: pandas2_def ref_describe_def describe_number_def describe_object_def
        split: if_splits)
  moreover from h have "map fst j = map fst (frame_columns g)"
    by (auto simp: pandas2_def ref_to_json_def comp_def case_prod_unfold split: if_splits)
  ultimately have "set (map fst j) \<subseteq> set (map fst (frame_columns f'))" by simp
  with cols show "set (map fst j) \<subseteq> set cs" by simp
qed

lemma table_ragged_raises:
  "pd_DataFrame pandas2 table_ragged = Inl (OtherException ''All arrays must be of the same length'')"
  by (simp add: pandas2_def ref_DataFrame_def table_ragged_def)

lemma starlette_shows_detail: "str_shows_detail starlette"
proof -
  have "sublist d ((decimal st @ '': '') @ d)" for st d
    by (rule sublist_append_leftI)
  then show ?thesis by (simp add: str_shows_detail_def starlette_def)
qed

lemma decimal_400: "decimal 400 = ''400''"
  by (simp add: decimal.simps)

lemma table_abc_built: "table_built pandas2 pyplot table_abc [] frame_abc [[]]"
  by (simp add: table_built_def pandas2_def pyplot_def ref_DataFrame_def table_abc_def
      frame_abc_def upt_rec)

lemma table_abc_frame: "pd_DataFrame pandas2 table_abc = Inr frame_abc"
  using table_abc_built by (simp add: table_built_def)

lemma analyze_ab: "analyze starlette pandas2 table_abc (Some [''a'', ''b'']) = Inr response_ab"
  by code_simp

lemma corr_abc:
  "df_corr pandas2 frame_abc =
     Inl (OtherException (''could not convert string to float: '' @ py_repr ''u''))"
  by (simp add: pandas2_def ref_corr_def frame_abc_def table_abc_def is_text_cell_def)

lemma plot_line_abc:
  "df_plot_line pyplot frame_abc None s = (Inr (), s @ [[PlotLine frame_abc None]])"
  "df_plot_line pyplot frame_abc (Some (''a'', ''c'')) s =
     (Inr (), s @ [[PlotLine frame_abc (Some (''a'', ''c''))]])"
  by (simp_all add: pyplot_def ref_plot_line_def frame_abc_def table_abc_def is_number_col_def
      col_dtype_def is_int_cell_def)

lemma after_draw_pyplot:
  "after_draw starlette pyplot None (Inr (), [[], [c]]) =
     (Inr (PlotContent (Base64 (Png [c]))), [[]])"
  by (simp add: after_draw_def render_response_def set_title_def bind_plt_def pure_plt_def
      pyplot_def JSONResponse_def starlette_def except_400_def)

section \<open>Properties of the handlers\<close>

text \<open>
  C1. For each of the four handlers: the handler either returns the response its
  \<^verbatim>\<open>try\<close> block built, or, when any step of the block raised an exception \<open>e\<close>, it fails
  with \<^verbatim>\<open>HTTPException\<close> of status 400 whose detail is \<^verbatim>\<open>str(e)\<close>; no other status is
  produced. The exception \<open>e\<close> of a block is the one raised by the first of its steps
  that raises: reading and decoding the upload, \<^verbatim>\<open>pd.read_csv\<close>, \<^verbatim>\<open>pd.DataFrame\<close>,
  \<^verbatim>\<open>describe\<close>, \<^verbatim>\<open>corr\<close>, the selections, every pyplot call, the handler's own
  \<^verbatim>\<open>raise HTTPException\<close> in \<^verbatim>\<open>plot\<close>, and the rendering of the response.
\<close>

theorem handlers_fail_with_400_and_str:
  "((\<exists>r. read_csv_try W C file = Inr r \<and> read_csv W C file = Inr r) \<or>
    (\<exists>e. read_csv_try W C file = Inl e \<and>
         read_csv W C file = Inl (HTTPException 400 (str_exn W e)))) \<and>
   ((\<exists>r. describe_try W D data = Inr r \<and> describe W D data = Inr r) \<or>
    (\<exists>e. describe_try W D data = Inl e \<and>
         describe W D data = Inl (HTTPException 400 (str_exn W e)))) \<and>
   ((\<exists>r. analyze_try W D data columns = Inr r \<and> analyze W D data columns = Inr r) \<or>
    (\<exists>e. analyze_try W D data columns = Inl e \<and>
         analyze W D data columns = Inl (HTTPException 400 (str_exn W e)))) \<and>
   ((\<exists>r. fst (plot_try W D P data kind x y title s) = Inr r \<and>
         fst (plot W D P data kind x y title s) = Inr r) \<or>
    (\<exists>e. fst (plot_try W D P data kind x y title s) = Inl e \<and>
         fst (plot W D P data kind x y title s) = Inl (HTTPException 400 (str_exn W e)))) \<and>
   ((read_csv_try W C file = Inl e) =
      (upload_read C file = Inl e \<or>
       (\<exists>content. upload_read C file = Inr content \<and>
        (decode_utf8 C content = Inl e \<or>
         (\<exists>txt. decode_utf8 C content = Inr txt \<and>
          (pd_read_csv C txt = Inl e \<or>
           (\<exists>df. pd_read_csv C txt = Inr df \<and>
            (to_json_records C df = Inl e \<or>
             (\<exists>rows. to_json_records C df = Inr rows \<and>
              (columns_tolist C df = Inl e \<or>
               (\<exists>cols. columns_tolist C df = Inr cols \<and>
                (df_shape C df = Inl e \<or>
                 (\<exists>shp. df_shape C df = Inr shp \<and>
                  render_error W (ReadCsvContent rows cols shp) = Some e))))))))))))) \<and>
   ((describe_try W D data = Inl e) =
      (pd_DataFrame D data = Inl e \<or>
       (\<exists>df. pd_DataFrame D data = Inr df \<and>
        (df_describe D df = Inl e \<or>
         (\<exists>description. df_describe D df = Inr description \<and>
          (df_to_json D description = Inl e \<or>
           (\<exists>statistics. df_to_json D description = Inr statistics \<and>
            (df_dtypes D df = Inl e \<or>
             (\<exists>dtypes. df_dtypes D df = Inr dtypes \<and>
              render_error W (DescribeContent statistics dtypes) = Some e))))))))) \<and>
   ((analyze_try W D data columns = Inl e) =
      (pd_DataFrame D data = Inl e \<or>
       (\<exists>df0. pd_DataFrame D data = Inr df0 \<and>
        (restrict_columns D df0 columns = Inl e \<or>
         (\<exists>df. restrict_columns D df0 columns = Inr df \<and>
          (df_describe D df = Inl e \<or>
           (\<exists>description. df_describe D df = Inr description \<and>
            (df_select_number D df = Inl e \<or>
             (\<exists>numeric. df_select_number D df = Inr numeric \<and>
              (df_corr D numeric = Inl e \<or>
               (\<exists>correlation. df_corr D numeric = Inr correlation \<and>
                (df_dtypes D df = Inl e \<or>
                 (\<exists>dtypes. df_dtypes D df = Inr dtypes \<and>
                  (df_count D df = Inl e \<or>
                   (\<exists>counts. df_count D df = Inr counts \<and>
                    (df_to_json D description = Inl e \<or>
                     (\<exists>dj. df_to_json D description = Inr dj \<and>
                      (df_to_json D correlation = Inl e \<or>
                       (\<exists>cj. df_to_json D correlation = Inr cj \<and>
                        render_error W (AnalyzeContent dj cj dtypes counts) = Some e))))))))))))))))))) \<and>
   ((restrict_columns D df0 columns = Inl e) =
      (\<exists>cs. columns = Some cs \<and> cs \<noteq> [] \<and> df_getitem_list D df0 cs = Inl e)) \<and>
   ((fst (plot_try W D P data kind x y title s) = Inl e) =
      (pd_DataFrame D data = Inl e \<or>
       (\<exists>df. pd_DataFrame D data = Inr df \<and>
         (fst (plt_figure P s) = Inl e \<or>
          (\<exists>s1. plt_figure P s = (Inr (), s1) \<and>
            (fst (draw_kind D P df kind x y s1) = Inl e \<or>
             (\<exists>s2. draw_kind D P df kind x y s1 = (Inr (), s2) \<and>
                fst (render_response W P title s2) = Inl e))))))) \<and>
   ((fst (draw_kind D P df kind x y s1) = Inl e) =
      (kind = ''line'' \<and>
         ((x = None \<or> y = None) \<and> fst (df_plot_line P df None s1) = Inl e \<or>
          (\<exists>xc yc. x = Some xc \<and> y = Some yc \<and>
             fst (df_plot_line P df (Some (xc, yc)) s1) = Inl e)) \<or>
       kind = ''scatter'' \<and>
         ((x = None \<or> y = None) \<and>
            e = HTTPException 400 ''x and y are required for scatter plots'' \<or>
          (\<exists>xc yc. x = Some xc \<and> y = Some yc \<and>
             (df_getitem D df xc = Inl e \<or>
              (\<exists>sx. df_getitem D df xc = Inr sx \<and>
                (df_getitem D df yc = Inl e \<or>
                 (\<exists>sy. df_getitem D df yc = Inr sy \<and>
                    fst (plt_scatter P sx sy s1) = Inl e)))))) \<or>
       kind = ''histogram'' \<and>
         (x = None \<and> e = HTTPException 400 ''x is required for histograms'' \<or>
          (\<exists>xc. x = Some xc \<and>
             (df_getitem D df xc = Inl e \<or>
              (\<exists>sx. df_getitem D df xc = Inr sx \<and> fst (series_hist P sx s1) = Inl e)))) \<or>
       kind = ''heatmap'' \<and>
         (df_corr D df = Inl e \<or>
          (\<exists>c. df_corr D df = Inr c \<and> fst (sns_heatmap P c s1) = Inl e)) \<or>
       \<not> known_kind kind \<and> e = HTTPException 400 (''Unsupported plot type: '' @ kind))) \<and>
   ((fst (render_response W P title s2) = Inl e) =
      (fst (set_title P title s2) = Inl e \<or>
       (\<exists>s3. set_title P title s2 = (Inr (), s3) \<and>
         (fst (plt_savefig P s3) = Inl e \<or>
          (\<exists>png s4. plt_savefig P s3 = (Inr png, s4) \<and>
            (fst (plt_close P s4) = Inl e \<or>
             (\<exists>s5. plt_close P s4 = (Inr (), s5) \<and>
                render_error W (PlotContent (b64encode P png)) = Some e))))))) \<and>
   ((fst (set_title P title s2) = Inl e) =
      (\<exists>t. title = Some t \<and> t \<noteq> [] \<and> fst (plt_title P t s2) = Inl e))"
proof -
  have plot_eq: "fst (plot W D P data kind x y title s) =
      except_400 W (fst (plot_try W D P data kind x y title s))"
    by (simp add: plot_def split: prod.splits)
  have blocks: "((\<exists>r. read_csv_try W C file = Inr r \<and> read_csv W C file = Inr r) \<or>
    (\<exists>e. read_csv_try W C file = Inl e \<and>
         read_csv W C file = Inl (HTTPException 400 (str_exn W e)))) \<and>
   ((\<exists>r. describe_try W D data = Inr r \<and> describe W D data = Inr r) \<or>
    (\<exists>e. describe_try W D data = Inl e \<and>
         describe W D data = Inl (HTTPException 400 (str_exn W e)))) \<and>
   ((\<exists>r. analyze_try W D data columns = Inr r \<and> analyze W D data columns = Inr r) \<or>
    (\<exists>e. analyze_try W D data columns = Inl e \<and>
         analyze W D data columns = Inl (HTTPException 400 (str_exn W e)))) \<and>
   ((\<exists>r. fst (plot_try W D P data kind x y title s) = Inr r \<and>
         fst (plot W D P data kind x y title s) = Inr r) \<or>
    (\<exists>e. fst (plot_try W D P data kind x y title s) = Inl e \<and>
         fst (plot W D P data kind x y title s) = Inl (HTTPException 400 (str_exn W e))))"
    unfolding read_csv_def describe_def analyze_def plot_eq
    by (intro conjI except_400_cases)
  show ?thesis
    apply (intro conjI)
    subgoal using blocks by (rule conjunct1)
    subgoal using blocks [THEN conjunct2] by (rule conjunct1)
    subgoal using blocks [THEN conjunct2, THEN conjunct2] by (rule conjunct1)
    subgoal using blocks [THEN conjunct2, THEN conjunct2] by (rule conjunct2)
    subgoal by (rule read_csv_try_raises)
    subgoal by (rule describe_try_raises)
    subgoal by (rule analyze_try_raises)
    subgoal by (rule restrict_columns_raises)
    subgoal by (rule plot_try_raises)
    subgoal by (rule draw_kind_raises)
    subgoal by (rule render_response_raises)
    subgoal by (rule set_title_raises)
    done
qed


text \<open>
  On the body whose lists differ in length, \<^verbatim>\<open>describe\<close> and \<^verbatim>\<open>analyze\<close> answer 400
  with the message of \<^verbatim>\<open>pd.DataFrame\<close>; the heatmap of the table with a text column
  answers 400 with the message of \<^verbatim>\<open>corr\<close>.
\<close>

theorem handlers_fail_with_400_and_str_witness:
  "describe starlette pandas2 table_ragged =
     Inl (HTTPException 400 ''All arrays must be of the same length'') \<and>
   analyze starlette pandas2 table_ragged None =
     Inl (HTTPException 400 ''All arrays must be of the same length'') \<and>
   fst (plot starlette pandas2 pyplot table_abc ''heatmap'' None None None []) =
     Inl (HTTPException 400 (''could not convert string to float: '' @ py_repr ''u''))"
proof -
  define m where "m = ''could not convert string to float: '' @ py_repr ''u''"
  have corr: "df_corr pandas2 frame_abc = Inl (OtherException m)"
    using corr_abc by (simp add: m_def)
  note ragged = handlers_fail_with_400_and_str [where W = starlette and D = pandas2
      and data = table_ragged and columns = None
      and e = "OtherException ''All arrays must be of the same length''"]
  note heat = handlers_fail_with_400_and_str [where W = starlette and D = pandas2
      and P = pyplot and data = table_abc and kind = "''heatmap''" and x = None and y = None
      and title = None and s = "[]" and df = frame_abc and ?s1.0 = "[[]]"
      and e = "OtherException m"]
  have fig: "plt_figure pyplot [] = (Inr (), [[]])" by (simp add: pyplot_def)
  have d: "describe_try starlette pandas2 table_ragged =
      Inl (OtherException ''All arrays must be of the same length'')"
    by (simp add: ragged [THEN conjunct2, THEN conjunct2, THEN conjunct2, THEN conjunct2, THEN conjunct2, THEN conjunct1] table_ragged_raises)
  have a: "analyze_try starlette pandas2 table_ragged None =
      Inl (OtherException ''All arrays must be of the same length'')"
    by (simp add: ragged [THEN conjunct2, THEN conjunct2, THEN conjunct2, THEN conjunct2, THEN conjunct2, THEN conjunct2, THEN conjunct1] table_ragged_raises)
  have p: "fst (plot_try starlette pandas2 pyplot table_abc ''heatmap'' None None None []) =
      Inl (OtherException m)"
    by (simp add: heat [THEN conjunct2, THEN conjunct2, THEN conjunct2, THEN conjunct2, THEN conjunct2, THEN conjunct2, THEN conjunct2, THEN conjunct2, THEN conjunct1] heat [THEN conjunct2, THEN conjunct2, THEN conjunct2, THEN conjunct2, THEN conjunct2, THEN conjunct2, THEN conjunct2, THEN conjunct2, THEN conjunct2, THEN conjunct1] table_abc_frame fig corr)
  from ragged [THEN conjunct2, THEN conjunct1] d
  have "describe starlette pandas2 table_ragged =
      Inl (HTTPException 400 ''All arrays must be of the same length'')"
    by (simp add: str_exn_def)
  moreover from ragged [THEN conjunct2, THEN conjunct2, THEN conjunct1] a
  have "analyze starlette pandas2 table_ragged None =
      Inl (HTTPException 400 ''All arrays must be of the same length'')"
    by (simp add: str_exn_def)
  moreover from heat [THEN conjunct2, THEN conjunct2, THEN conjunct2, THEN conjunct1] p
  have "fst (plot starlette pandas2 pyplot table_abc ''heatmap'' None None None []) =
      Inl (HTTPException 400 m)"
    by (simp add: str_exn_def)
  ultimately show ?thesis by (simp add: m_def)
qed

text \<open>
  C2, as amended. \<^verbatim>\<open>plot\<close> with \<^verbatim>\<open>kind="scatter"\<close> and \<^verbatim>\<open>x\<close> or \<^verbatim>\<open>y\<close> missing
  always fails with status 400. When the table was built and the figure opened (lines
  52-53), the detail is \<^verbatim>\<open>str\<close> of the \<^verbatim>\<open>HTTPException\<close> raised at line 62, and the state
  is the one \<^verbatim>\<open>plt.figure\<close> left; that text mentions "x and y" when \<^verbatim>\<open>str\<close> of an
  \<^verbatim>\<open>HTTPException\<close> contains its detail. When \<^verbatim>\<open>pd.DataFrame(data)\<close> raises \<open>e\<close>, the
  detail is \<^verbatim>\<open>str(e)\<close> instead and no figure has been opened.
\<close>

theorem plot_scatter_missing_xy:
  assumes "x = None \<or> y = None"
  shows "(\<exists>d. fst (plot W D P data ''scatter'' x y title s) = Inl (HTTPException 400 d)) \<and>
         (table_built D P data s df s1 \<longrightarrow>
            plot W D P data ''scatter'' x y title s =
              (Inl (HTTPException 400
                     (exception_str W 400 ''x and y are required for scatter plots'')), s1) \<and>
            (str_shows_detail W \<longrightarrow>
               sublist ''x and y''
                 (exception_str W 400 ''x and y are required for scatter plots''))) \<and>
         (pd_DataFrame D data = Inl e \<longrightarrow>
            plot W D P data ''scatter'' x y title s =
              (Inl (HTTPException 400 (str_exn W e)), s))"
proof (intro conjI impI)
  show "\<exists>d. fst (plot W D P data ''scatter'' x y title s) = Inl (HTTPException 400 d)"
    by (rule plot_fails_with_400) (simp add: draw_scatter_missing [OF assms])
next
  assume "table_built D P data s df s1"
  then show "plot W D P data ''scatter'' x y title s =
      (Inl (HTTPException 400
             (exception_str W 400 ''x and y are required for scatter plots'')), s1)"
    using plot_draw_raises [OF _ draw_scatter_missing [OF assms]]
    by (simp add: str_exn_def)
next
  assume "str_shows_detail W"
  then have "sublist ''x and y are required for scatter plots''
      (exception_str W 400 ''x and y are required for scatter plots'')"
    by (simp add: str_shows_detail_def)
  moreover have "sublist ''x and y'' (''x and y'' @ '' are required for scatter plots'')"
    by (rule sublist_append_rightI)
  ultimately show "sublist ''x and y''
      (exception_str W 400 ''x and y are required for scatter plots'')"
    by (auto intro: sublist_order.order_trans)
next
  assume "pd_DataFrame D data = Inl e"
  then show "plot W D P data ''scatter'' x y title s =
      (Inl (HTTPException 400 (str_exn W e)), s)"
    by (simp add: plot_def plot_try_def bind_plt_def pure_plt_def except_400_def)
qed

theorem plot_scatter_missing_xy_witness:
  "plot starlette pandas2 pyplot table_abc ''scatter'' (Some ''a'') None None [] =
     (Inl (HTTPException 400 ''400: x and y are required for scatter plots''), [[]]) \<and>
   sublist ''x and y'' ''400: x and y are required for scatter plots'' \<and>
   plot starlette pandas2 pyplot table_ragged ''scatter'' (Some ''a'') None None [] =
     (Inl (HTTPException 400 ''All arrays must be of the same length''), [])"
  using plot_scatter_missing_xy [where x = "Some ''a''" and y = None and W = starlette
      and D = pandas2 and P = pyplot and data = table_abc and title = None and s = "[]"
      and df = frame_abc and ?s1.0 = "[[]]"]
    plot_scatter_missing_xy [where x = "Some ''a''" and y = None and W = starlette
      and D = pandas2 and P = pyplot and data = table_ragged and title = None and s = "[]"
      and e = "OtherException ''All arrays must be of the same length''"]
    table_abc_built starlette_shows_detail table_ragged_raises
  by (simp add: starlette_def decimal_400 str_exn_def)

text \<open>
  The claim as stated fails on a body whose lists differ in length: \<^verbatim>\<open>pd.DataFrame\<close>
  raises at line 52, before \<^verbatim>\<open>kind\<close> is looked at, and the detail is its message.
\<close>

theorem plot_scatter_missing_xy_counterexample:
  "plot starlette pandas2 pyplot table_ragged ''scatter'' (Some ''a'') None None [] =
     (Inl (HTTPException 400 ''All arrays must be of the same length''), []) \<and>
   \<not> sublist ''x and y'' ''All arrays must be of the same length''"
proof
  show "plot starlette pandas2 pyplot table_ragged ''scatter'' (Some ''a'') None None [] =
     (Inl (HTTPException 400 ''All arrays must be of the same length''), [])"
    by (simp add: plot_def plot_try_def bind_plt_def pure_plt_def except_400_def str_exn_def
        pandas2_def ref_DataFrame_def table_ragged_def)
  show "\<not> sublist ''x and y'' ''All arrays must be of the same length''"
    by code_simp
qed

text \<open>
  C3, as amended. \<^verbatim>\<open>plot\<close> with a \<^verbatim>\<open>kind\<close> other than line, scatter, histogram and
  heatmap always fails with status 400. When the table was built and the figure opened,
  the detail is \<^verbatim>\<open>str\<close> of the \<^verbatim>\<open>HTTPException\<close> raised at line 71, whose own detail is
  \<^verbatim>\<open>"Unsupported plot type: "\<close> followed by the kind; that text names the kind when
  \<^verbatim>\<open>str\<close> of an \<^verbatim>\<open>HTTPException\<close> contains its detail. When \<^verbatim>\<open>pd.DataFrame(data)\<close>
  raises \<open>e\<close>, the detail is \<^verbatim>\<open>str(e)\<close> instead and no figure has been opened.
\<close>

theorem plot_unknown_kind:
  assumes "\<not> known_kind kind"
  shows "(\<exists>d. fst (plot W D P data kind x y title s) = Inl (HTTPException 400 d)) \<and>
         (table_built D P data s df s1 \<longrightarrow>
            plot W D P data kind x y title s =
              (Inl (HTTPException 400
                     (exception_str W 400 (''Unsupported plot type: '' @ kind))), s1) \<and>
            (str_shows_detail W \<longrightarrow>
               sublist kind (exception_str W 400 (''Unsupported plot type: '' @ kind)))) \<and>
         (pd_DataFrame D data = Inl e \<longrightarrow>
            plot W D P data kind x y title s =
              (Inl (HTTPException 400 (str_exn W e)), s))"
proof (intro conjI impI)
  show "\<exists>d. fst (plot W D P data kind x y title s) = Inl (HTTPException 400 d)"
    by (rule plot_fails_with_400) (simp add: draw_unknown_kind [OF assms])
next
  assume "table_built D P data s df s1"
  then show "plot W D P data kind x y title s =
      (Inl (HTTPException 400
             (exception_str W 400 (''Unsupported plot type: '' @ kind))), s1)"
    using plot_draw_raises [OF _ draw_unknown_kind [OF assms]]
    by (simp add: str_exn_def)
next
  assume "str_shows_detail W"
  then have "sublist (''Unsupported plot type: '' @ kind)
      (exception_str W 400 (''Unsupported plot type: '' @ kind))"
    by (simp add: str_shows_detail_def)
  moreover have "sublist kind (''Unsupported plot type: '' @ kind)"
    by (rule sublist_append_leftI)
  ultimately show "sublist kind (exception_str W 400 (''Unsupported plot type: '' @ kind))"
    by (auto intro: sublist_order.order_trans)
next
  assume "pd_DataFrame D data = Inl e"
  then show "plot W D P data kind x y title s = (Inl (HTTPException 400 (str_exn W e)), s)"
    by (simp add: plot_def plot_try_def bind_plt_def pure_plt_def except_400_def)
qed

theorem plot_unknown_kind_witness:
  "\<not> known_kind ''pie'' \<and>
   plot starlette pandas2 pyplot table_abc ''pie'' None None None [] =
     (Inl (HTTPException 400 ''400: Unsupported plot type: pie''), [[]]) \<and>
   sublist ''pie'' ''400: Unsupported plot type: pie'' \<and>
   plot starlette pandas2 pyplot table_ragged ''pie'' None None None [] =
     (Inl (HTTPException 400 ''All arrays must be of the same length''), [])"
proof -
  have k: "\<not> known_kind ''pie''" by (simp add: known_kind_def)
  from plot_unknown_kind [OF k, where W = starlette and D = pandas2 and P = pyplot
      and data = table_abc and x = None and y = None and title = None and s = "[]"
      and df = frame_abc and ?s1.0 = "[[]]"]
    plot_unknown_kind [OF k, where W = starlette and D = pandas2 and P = pyplot
      and data = table_ragged and x = None and y = None and title = None and s = "[]"
      and e = "OtherException ''All arrays must be of the same length''"]
    table_abc_built starlette_shows_detail table_ragged_raises k
  show ?thesis by (simp add: starlette_def decimal_400 str_exn_def)
qed

text \<open>The claim as stated fails, again, on a body whose lists differ in length.\<close>

theorem plot_unknown_kind_counterexample:
  "\<not> known_kind ''pie'' \<and>
   plot starlette pandas2 pyplot table_ragged ''pie'' None None None [] =
     (Inl (HTTPException 400 ''All arrays must be of the same length''), []) \<and>
   \<not> sublist ''pie'' ''All arrays must be of the same length''"
proof (intro conjI)
  show "\<not> known_kind ''pie''" by (simp add: known_kind_def)
  show "plot starlette pandas2 pyplot table_ragged ''pie'' None None None [] =
     (Inl (HTTPException 400 ''All arrays must be of the same length''), [])"
    by (simp add: plot_def plot_try_def bind_plt_def pure_plt_def except_400_def str_exn_def
        pandas2_def ref_DataFrame_def table_ragged_def)
  show "\<not> sublist ''pie'' ''All arrays must be of the same length''"
    by code_simp
qed

text \<open>
  C4, as amended. \<^verbatim>\<open>analyze\<close> with a non-empty \<^verbatim>\<open>columns\<close> list answers successfully
  exactly when \<^verbatim>\<open>pd.DataFrame(data)\<close>, the selection \<^verbatim>\<open>df[columns]\<close>, every later
  library call on the selected frame and the rendering of the response succeed; then
  \<^verbatim>\<open>description\<close>, \<^verbatim>\<open>correlation\<close> and \<^verbatim>\<open>info\<close> are the ones computed from the selected
  frame. In a successful answer the keys of \<^verbatim>\<open>info.dtypes\<close> are exactly the listed
  columns, when the library's dtype mapping of a selection has the selected labels as
  keys, and \<^verbatim>\<open>description\<close> has no column outside the list, when the library's
  description of a selection has none; it need not have every listed column. With
  \<^verbatim>\<open>columns=[]\<close> the handler behaves as with \<^verbatim>\<open>columns\<close> omitted.
\<close>

theorem analyze_nonempty_columns:
  "(cs \<noteq> [] \<longrightarrow>
      (analyze W D data (Some cs) = Inr r) =
        (\<exists>df0 df description numeric correlation dtypes counts dj cj.
           pd_DataFrame D data = Inr df0 \<and> df_getitem_list D df0 cs = Inr df \<and>
           df_describe D df = Inr description \<and> df_select_number D df = Inr numeric \<and>
           df_corr D numeric = Inr correlation \<and> df_dtypes D df = Inr dtypes \<and>
           df_count D df = Inr counts \<and> df_to_json D description = Inr dj \<and>
           df_to_json D correlation = Inr cj \<and>
           render_error W (AnalyzeContent dj cj dtypes counts) = None \<and>
           r = AnalyzeContent dj cj dtypes counts)) \<and>
   (cs \<noteq> [] \<and> analyze W D data (Some cs) = Inr r \<and> selection_keeps_labels D \<longrightarrow>
      set (map fst (analyze_dtypes r)) = set cs) \<and>
   (cs \<noteq> [] \<and> analyze W D data (Some cs) = Inr r \<and> description_within_selection D keys \<longrightarrow>
      (\<exists>dj. analyze_description r = Some dj \<and> set (keys dj) \<subseteq> set cs)) \<and>
   analyze W D data (Some []) = analyze W D data None"
proof (intro conjI impI)
  assume "cs \<noteq> []"
  then show "(analyze W D data (Some cs) = Inr r) =
        (\<exists>df0 df description numeric correlation dtypes counts dj cj.
           pd_DataFrame D data = Inr df0 \<and> df_getitem_list D df0 cs = Inr df \<and>
           df_describe D df = Inr description \<and> df_select_number D df = Inr numeric \<and>
           df_corr D numeric = Inr correlation \<and> df_dtypes D df = Inr dtypes \<and>
           df_count D df = Inr counts \<and> df_to_json D description = Inr dj \<and>
           df_to_json D correlation = Inr cj \<and>
           render_error W (AnalyzeContent dj cj dtypes counts) = None \<and>
           r = AnalyzeContent dj cj dtypes counts)"
    by (simp add: analyze_returns analyze_try_returns restrict_columns_def)
next
  assume h: "cs \<noteq> [] \<and> analyze W D data (Some cs) = Inr r \<and> selection_keeps_labels D"
  then obtain df0 df dtypes dj cj counts where
    "df_getitem_list D df0 cs = Inr df" "df_dtypes D df = Inr dtypes"
    "r = AnalyzeContent dj cj dtypes counts"
    by (auto simp: analyze_returns analyze_try_returns restrict_columns_def)
  with h show "set (map fst (analyze_dtypes r)) = set cs"
    unfolding selection_keeps_labels_def analyze_dtypes_def by fastforce
next
  assume h: "cs \<noteq> [] \<and> analyze W D data (Some cs) = Inr r \<and>
    description_within_selection D keys"
  then obtain df0 df description dtypes dj cj counts where
    "df_getitem_list D df0 cs = Inr df" "df_describe D df = Inr description"
    "df_to_json D description = Inr dj" "r = AnalyzeContent dj cj dtypes counts"
    by (auto simp: analyze_returns analyze_try_returns restrict_columns_def)
  with h show "\<exists>dj. analyze_description r = Some dj \<and> set (keys dj) \<subseteq> set cs"
    unfolding description_within_selection_def analyze_description_def by fastforce
next
  show "analyze W D data (Some []) = analyze W D data None"
    by (simp add: analyze_def analyze_try_def restrict_columns_def)
qed

theorem analyze_nonempty_columns_witness:
  "analyze starlette pandas2 table_abc (Some [''a'', ''b'']) = Inr response_ab \<and>
   set (map fst (analyze_dtypes response_ab)) = {''a'', ''b''} \<and>
   map_option (map fst) (analyze_description response_ab) = Some [''a''] \<and>
   {''a''} \<subseteq> {''a'', ''b''}"
proof -
  have ne: "[''a'', ''b''] \<noteq> []" by simp
  from analyze_nonempty_columns [of "[''a'', ''b'']" starlette pandas2 table_abc response_ab
      "map fst"]
    pandas2_selection_keeps_labels pandas2_description_within_selection analyze_ab ne
  show ?thesis by (auto simp: analyze_description_def response_ab_def)
qed

text \<open>
  The claim as stated fails on the table with columns a (integers), b (text) and c
  (integers). With \<^verbatim>\<open>columns=[]\<close>, a subset of the column names, nothing is selected
  and \<^verbatim>\<open>info.dtypes\<close> lists all three columns. With \<^verbatim>\<open>columns=["a", "b"]\<close>,
  \<^verbatim>\<open>description\<close> holds column a only, since \<^verbatim>\<open>describe()\<close> leaves the text column out,
  while \<^verbatim>\<open>info.dtypes\<close> lists a and b. With \<^verbatim>\<open>columns=["a", "a"]\<close> the selection is
  accepted and the request answers 400, since \<^verbatim>\<open>to_json\<close> refuses repeated column labels.
\<close>

theorem analyze_columns_subset_counterexample:
  "dtype_keys (analyze starlette pandas2 table_abc (Some [])) = Some [''a'', ''b'', ''c''] \<and>
   description_keys (analyze starlette pandas2 table_abc (Some [''a'', ''b''])) = Some [''a''] \<and>
   dtype_keys (analyze starlette pandas2 table_abc (Some [''a'', ''b''])) = Some [''a'', ''b''] \<and>
   error_status (analyze starlette pandas2 table_abc (Some [''a'', ''a''])) = Some 400"
  by code_simp

text \<open>
  C5. \<^verbatim>\<open>plot\<close> with \<^verbatim>\<open>kind="heatmap"\<close> calls \<^verbatim>\<open>df.corr()\<close> on the whole frame (line
  69), not on its numeric columns as \<^verbatim>\<open>analyze\<close> does (line 98): when \<^verbatim>\<open>corr\<close> of the
  whole frame raises, the handler fails with status 400 and that exception's text,
  whatever \<^verbatim>\<open>x\<close>, \<^verbatim>\<open>y\<close> and \<^verbatim>\<open>title\<close> are.
\<close>

theorem plot_heatmap_corr_of_whole_frame:
  assumes "table_built D P data s df s1" "df_corr D df = Inl e"
  shows "plot W D P data ''heatmap'' x y title s = (Inl (HTTPException 400 (str_exn W e)), s1)"
proof -
  from assms(2) have "draw_kind D P df ''heatmap'' x y s1 = (Inl e, s1)"
    by (simp add: draw_kind_def bind_plt_def pure_plt_def)
  with assms(1) show ?thesis by (rule plot_draw_raises)
qed

theorem plot_heatmap_corr_of_whole_frame_witness:
  "plot starlette pandas2 pyplot table_abc ''heatmap'' None None None [] =
     (Inl (HTTPException 400 (''could not convert string to float: '' @ py_repr ''u'')), [[]])"
  using plot_heatmap_corr_of_whole_frame [OF table_abc_built corr_abc, of starlette None None None]
  by (simp add: str_exn_def)

text \<open>
  C8. When \<^verbatim>\<open>plot\<close> raises in its drawing step (scatter without \<^verbatim>\<open>x\<close> or \<^verbatim>\<open>y\<close>,
  histogram without \<^verbatim>\<open>x\<close>, an unknown kind), it returns in the state that
  \<^verbatim>\<open>plt.figure\<close> left at line 53: \<^verbatim>\<open>plt.close()\<close> at line 78 is not reached, and the
  figure opened for the request is still open.
\<close>

theorem plot_error_leaves_figure_open:
  assumes "table_built D P data s df s1"
    and "kind = ''scatter'' \<and> (x = None \<or> y = None) \<or> kind = ''histogram'' \<and> x = None \<or>
         \<not> known_kind kind"
  shows "\<exists>d. plot W D P data kind x y title s = (Inl (HTTPException 400 d), s1)"
proof -
  from assms(2) have "\<exists>e. draw_kind D P df kind x y s1 = (Inl e, s1)"
    by (auto simp: draw_kind_def known_kind_def pure_plt_def split: option.splits)
  then obtain e where "draw_kind D P df kind x y s1 = (Inl e, s1)" ..
  with assms(1) show ?thesis by (simp add: plot_draw_raises)
qed

theorem plot_error_leaves_figure_open_witness:
  "plt_figure pyplot [] = (Inr (), [[]]) \<and>
   snd (plot starlette pandas2 pyplot table_abc ''pie'' None None None []) = [[]] \<and>
   snd (plot starlette pandas2 pyplot table_abc ''scatter'' None None None []) = [[]]"
proof -
  have k: "\<not> known_kind ''pie''" by (simp add: known_kind_def)
  from plot_error_leaves_figure_open [OF table_abc_built, of "''pie''" None None starlette None]
    plot_error_leaves_figure_open [OF table_abc_built, of "''scatter''" None None starlette None]
    k
  show ?thesis by (auto simp: pyplot_def)
qed

text \<open>
  C9, as amended. \<^verbatim>\<open>plot\<close> with \<^verbatim>\<open>kind="line"\<close>, once the table is built and the
  figure opened, makes one drawing call and then goes on to lines 73-84: if \<^verbatim>\<open>x\<close> or
  \<^verbatim>\<open>y\<close> is omitted (either one, not only both), the call is \<^verbatim>\<open>df.plot(kind="line")\<close>,
  with neither \<^verbatim>\<open>x\<close> nor \<^verbatim>\<open>y\<close> passed on; if both are given, it is
  \<^verbatim>\<open>df.plot(kind="line", x=x, y=y)\<close>. What the call draws, and whether it raises, is
  pandas' part.
\<close>

theorem plot_line_columns:
  assumes "table_built D P data s df s1"
  shows "(x = None \<or> y = None \<longrightarrow>
            plot W D P data ''line'' x y title s =
              after_draw W P title (df_plot_line P df None s1)) \<and>
         (\<forall>xc yc. x = Some xc \<and> y = Some yc \<longrightarrow>
            plot W D P data ''line'' x y title s =
              after_draw W P title (df_plot_line P df (Some (xc, yc)) s1))"
  by (auto simp: plot_after_draw [OF assms] draw_kind_def split: option.splits)

theorem plot_line_columns_witness:
  "fst (plot starlette pandas2 pyplot table_abc ''line'' None None None []) =
     Inr (PlotContent (Base64 (Png [PlotLine frame_abc None]))) \<and>
   fst (plot starlette pandas2 pyplot table_abc ''line'' (Some ''a'') (Some ''c'') None []) =
     Inr (PlotContent (Base64 (Png [PlotLine frame_abc (Some (''a'', ''c''))])))"
  using plot_line_columns [OF table_abc_built, of None None starlette None]
    plot_line_columns [OF table_abc_built, of "Some ''a''" "Some ''c''" starlette None]
  by (simp add: plot_line_abc after_draw_pyplot)

text \<open>
  The claim as stated fails when exactly one of \<^verbatim>\<open>x\<close> and \<^verbatim>\<open>y\<close> is given: the image
  is the one of \<^verbatim>\<open>df.plot(kind="line")\<close>, called without \<^verbatim>\<open>x\<close> and \<^verbatim>\<open>y\<close>.
\<close>

theorem plot_line_columns_counterexample:
  "fst (plot starlette pandas2 pyplot table_abc ''line'' (Some ''a'') None None []) =
     Inr (PlotContent (Base64 (Png [PlotLine frame_abc None]))) \<and>
   fst (plot starlette pandas2 pyplot table_abc ''line'' None (Some ''c'') None []) =
     Inr (PlotContent (Base64 (Png [PlotLine frame_abc None])))"
  by (simp add: plot_after_draw [OF table_abc_built] draw_kind_def plot_line_abc
      after_draw_pyplot)



end
